theory Spec2Isabelle
  imports Main
begin

section \<open>The header file\<close>

text \<open>
  The JNI header of the Java class \<open>DSCaptureDevice\<close>, line by line as it stands in
  the repository (93 lines, the last one without a newline).
\<close>

definition header :: "string list" where
  \<open>header = [
    ''/* DO NOT EDIT THIS FILE - it is machine generated */'',
    ''#include <jni.h>'',
    ''/* Header for class org_jitsi_impl_neomedia_jmfext_media_protocol_directshow_DSCaptureDevice */'',
    '''',
    ''#ifndef _Included_org_jitsi_impl_neomedia_jmfext_media_protocol_directshow_DSCaptureDevice'',
    ''#define _Included_org_jitsi_impl_neomedia_jmfext_media_protocol_directshow_DSCaptureDevice'',
    ''#ifdef __cplusplus'',
    ''extern "C" {'',
    ''#endif'',
    ''/*'',
    '' * Class:     org_jitsi_impl_neomedia_jmfext_media_protocol_directshow_DSCaptureDevice'',
    '' * Method:    getBytes'',
    '' * Signature: (JJI)I'',
    '' */'',
    ''JNIEXPORT jint JNICALL Java_org_jitsi_impl_neomedia_jmfext_media_protocol_directshow_DSCaptureDevice_getBytes'',
    ''  (JNIEnv *, jclass, jlong, jlong, jint);'',
    '''',
    ''/*'',
    '' * Class:     org_jitsi_impl_neomedia_jmfext_media_protocol_directshow_DSCaptureDevice'',
    '' * Method:    connect'',
    '' * Signature: (J)V'',
    '' */'',
    ''JNIEXPORT void JNICALL Java_org_jitsi_impl_neomedia_jmfext_media_protocol_directshow_DSCaptureDevice_connect'',
    ''  (JNIEnv *, jobject, jlong);'',
    '''',
    ''/*'',
    '' * Class:     org_jitsi_impl_neomedia_jmfext_media_protocol_directshow_DSCaptureDevice'',
    '' * Method:    disconnect'',
    '' * Signature: (J)V'',
    '' */'',
    ''JNIEXPORT void JNICALL Java_org_jitsi_impl_neomedia_jmfext_media_protocol_directshow_DSCaptureDevice_disconnect'',
    ''  (JNIEnv *, jobject, jlong);'',
    '''',
    ''/*'',
    '' * Class:     org_jitsi_impl_neomedia_jmfext_media_protocol_directshow_DSCaptureDevice'',
    '' * Method:    getFormat'',
    '' * Signature: (J)Lorg/jitsi/impl/neomedia/jmfext/media/protocol/directshow/DSFormat;'',
    '' */'',
    ''JNIEXPORT jobject JNICALL Java_org_jitsi_impl_neomedia_jmfext_media_protocol_directshow_DSCaptureDevice_getFormat'',
    ''  (JNIEnv *, jobject, jlong);'',
    '''',
    ''/*'',
    '' * Class:     org_jitsi_impl_neomedia_jmfext_media_protocol_directshow_DSCaptureDevice'',
    '' * Method:    getName'',
    '' * Signature: (J)Ljava/lang/String;'',
    '' */'',
    ''JNIEXPORT jstring JNICALL Java_org_jitsi_impl_neomedia_jmfext_media_protocol_directshow_DSCaptureDevice_getName'',
    ''  (JNIEnv *, jobject, jlong);'',
    '''',
    ''/*'',
    '' * Class:     org_jitsi_impl_neomedia_jmfext_media_protocol_directshow_DSCaptureDevice'',
    '' * Method:    getSupportedFormats'',
    '' * Signature: (J)[Lorg/jitsi/impl/neomedia/jmfext/media/protocol/directshow/DSFormat;'',
    '' */'',
    ''JNIEXPORT jobjectArray JNICALL Java_org_jitsi_impl_neomedia_jmfext_media_protocol_directshow_DSCaptureDevice_getSupportedFormats'',
    ''  (JNIEnv *, jobject, jlong);'',
    '''',
    ''/*'',
    '' * Class:     org_jitsi_impl_neomedia_jmfext_media_protocol_directshow_DSCaptureDevice'',
    '' * Method:    setDelegate'',
    '' * Signature: (JLorg/jitsi/impl/neomedia/jmfext/media/protocol/directshow/DSCaptureDevice/GrabberDelegate;)V'',
    '' */'',
    ''JNIEXPORT void JNICALL Java_org_jitsi_impl_neomedia_jmfext_media_protocol_directshow_DSCaptureDevice_setDelegate'',
    ''  (JNIEnv *, jobject, jlong, jobject);'',
    '''',
    ''/*'',
    '' * Class:     org_jitsi_impl_neomedia_jmfext_media_protocol_directshow_DSCaptureDevice'',
    '' * Method:    setFormat'',
    '' * Signature: (JLorg/jitsi/impl/neomedia/jmfext/media/protocol/directshow/DSFormat;)I'',
    '' */'',
    ''JNIEXPORT jint JNICALL Java_org_jitsi_impl_neomedia_jmfext_media_protocol_directshow_DSCaptureDevice_setFormat'',
    ''  (JNIEnv *, jobject, jlong, jobject);'',
    '''',
    ''/*'',
    '' * Class:     org_jitsi_impl_neomedia_jmfext_media_protocol_directshow_DSCaptureDevice'',
    '' * Method:    start'',
    '' * Signature: (J)I'',
    '' */'',
    ''JNIEXPORT jint JNICALL Java_org_jitsi_impl_neomedia_jmfext_media_protocol_directshow_DSCaptureDevice_start'',
    ''  (JNIEnv *, jobject, jlong);'',
    '''',
    ''/*'',
    '' * Class:     org_jitsi_impl_neomedia_jmfext_media_protocol_directshow_DSCaptureDevice'',
    '' * Method:    stop'',
    '' * Signature: (J)I'',
    '' */'',
    ''JNIEXPORT jint JNICALL Java_org_jitsi_impl_neomedia_jmfext_media_protocol_directshow_DSCaptureDevice_stop'',
    ''  (JNIEnv *, jobject, jlong);'',
    '''',
    ''#ifdef __cplusplus'',
    ''}'',
    ''#endif'',
    ''#endif''
  ]\<close>

section \<open>Lexical structure\<close>

definition is_space :: "char \<Rightarrow> bool" where
  "is_space c = (c = CHR '' '' \<or> c = CHR 0x09)"

definition is_ident_char :: "char \<Rightarrow> bool" where
  "is_ident_char c =
     (let n = (of_char c :: nat)
      in (97 \<le> n \<and> n \<le> 122) \<or> (65 \<le> n \<and> n \<le> 90) \<or> (48 \<le> n \<and> n \<le> 57) \<or> n = 95)"

definition blank :: "string \<Rightarrow> bool" where
  "blank l = list_all is_space l"

fun starts_with :: "string \<Rightarrow> string \<Rightarrow> bool" where
  "starts_with [] s = True"
| "starts_with (p # ps) [] = False"
| "starts_with (p # ps) (c # cs) = (p = c \<and> starts_with ps cs)"

definition trim :: "string \<Rightarrow> string" where
  "trim s = rev (dropWhile is_space (rev (dropWhile is_space s)))"

datatype token = Ident string | Punct char

definition flush :: "string \<Rightarrow> token list" where
  "flush w = (if w = [] then [] else [Ident w])"

text \<open>Identifiers are maximal runs of letters, digits and underscores; every other
  character that is not white space is a punctuator of its own.\<close>

fun lex :: "string \<Rightarrow> string \<Rightarrow> token list" where
  "lex w [] = flush w"
| "lex w (c # cs) =
     (if is_ident_char c then lex (w @ [c]) cs
      else flush w @ (if is_space c then lex [] cs else Punct c # lex [] cs))"

text \<open>The text after the first \<open>*/\<close> of a line, if the line has one.\<close>

fun after_close :: "string \<Rightarrow> string option" where
  "after_close (a # b # cs) =
     (if a = CHR ''*'' \<and> b = CHR ''/'' then Some cs else after_close (b # cs))"
| "after_close _ = None"

section \<open>Preprocessor directives\<close>

datatype directive =
    Include string
  | Ifndef string
  | Ifdef string
  | Define string
  | Endif

definition is_identifier :: "string \<Rightarrow> bool" where
  "is_identifier s = (s \<noteq> [] \<and> list_all is_ident_char s)"

text \<open>A directive line is \<open>#\<close>, a keyword and its argument. Only the five forms the
  header generator emits are recognised; \<open>#define\<close> is the object-like form with an
  empty replacement.\<close>

definition directive_of :: "string \<Rightarrow> directive option" where
  "directive_of l =
     (case l of
        [] \<Rightarrow> None
      | h # r \<Rightarrow>
          if h \<noteq> CHR ''#'' then None
          else
            (let r' = dropWhile is_space r;
                 kw = takeWhile is_ident_char r';
                 arg = trim (dropWhile is_ident_char r')
             in if kw = ''include'' then
                  (if 2 \<le> length arg \<and> hd arg = CHR ''<'' \<and> last arg = CHR ''>''
                   then Some (Include (butlast (tl arg))) else None)
                else if kw = ''ifndef'' then
                  (if is_identifier arg then Some (Ifndef arg) else None)
                else if kw = ''ifdef'' then
                  (if is_identifier arg then Some (Ifdef arg) else None)
                else if kw = ''define'' then
                  (if is_identifier arg then Some (Define arg) else None)
                else if kw = ''endif'' then
                  (if arg = [] then Some Endif else None)
                else None))"

section \<open>Function prototypes\<close>

datatype ctype = Named string | Pointer string

record prototype =
  ret :: string
  name :: string
  params :: "ctype list"

text \<open>A parameter list after its opening parenthesis: unnamed parameters, each a type
  name or a pointer to one, separated by commas, up to the closing parenthesis.\<close>

fun parse_params :: "token list \<Rightarrow> (ctype list \<times> token list) option" where
  "parse_params (Ident t # Punct c # rest) =
     (if c = CHR '','' then map_option (apfst (Cons (Named t))) (parse_params rest)
      else if c = CHR '')'' then Some ([Named t], rest)
      else if c = CHR ''*'' then
        (case rest of
           Punct d # rest' \<Rightarrow>
             if d = CHR '','' then map_option (apfst (Cons (Pointer t))) (parse_params rest')
             else if d = CHR '')'' then Some ([Pointer t], rest')
             else None
         | _ \<Rightarrow> None)
      else None)"
| "parse_params _ = None"

text \<open>\<open>JNIEXPORT\<close> \<^emph>\<open>type\<close> \<open>JNICALL\<close> \<^emph>\<open>name\<close> \<open>(\<close>\<^emph>\<open>parameters\<close>\<open>);\<close> and nothing
  after the semicolon. A definition (a body in braces) is not of this form.\<close>

fun parse_prototype :: "token list \<Rightarrow> prototype option" where
  "parse_prototype (Ident e # Ident r # Ident c # Ident n # Punct p # rest) =
     (if e = ''JNIEXPORT'' \<and> c = ''JNICALL'' \<and> p = CHR ''('' then
        (case parse_params rest of
           Some (ps, [Punct s]) \<Rightarrow>
             if s = CHR '';'' then Some \<lparr>ret = r, name = n, params = ps\<rparr> else None
         | _ \<Rightarrow> None)
      else None)"
| "parse_prototype _ = None"

section \<open>Top-level elements\<close>

datatype element =
    Comment "string list"
  | Directive directive
  | LinkageOpen
  | CloseBrace
  | Prototype prototype

text \<open>An element with the numbers of its first and last line.\<close>

type_synonym located = "nat \<times> nat \<times> element"

definition complete :: "token list \<Rightarrow> bool" where
  "complete ts =
     (ts \<noteq> [] \<and> (last ts = Punct CHR '';'' \<or> last ts = Punct CHR ''{'' \<or> last ts = Punct CHR ''}''))"

definition statement_of :: "token list \<Rightarrow> element option" where
  "statement_of ts =
     (if ts = [Ident ''extern'', Punct CHR 0x22, Ident ''C'', Punct CHR 0x22, Punct CHR ''{'']
      then Some LinkageOpen
      else if ts = [Punct CHR ''}''] then Some CloseBrace
      else map_option Prototype (parse_prototype ts))"

datatype mode = Top | InComment nat "string list" | InDeclaration nat "token list"

definition cons_opt :: "'a \<Rightarrow> 'a list option \<Rightarrow> 'a list option" where
  "cons_opt x r = map_option (Cons x) r"

text \<open>
  The file as a sequence of elements. Blank lines separate elements and are none
  themselves. A comment runs from a line that starts with \<open>/*\<close> to the first line with
  \<open>*/\<close>, which must end that line. A line starting with \<open>#\<close> is a directive. Any other
  line starts a declaration, which runs on over the following lines until its tokens end
  in \<open>;\<close>, \<open>{\<close> or \<open>}\<close>. Whatever is not of these forms (a variable, a function body,
  a statement, a type definition) makes the scan fail.
\<close>

fun scan :: "mode \<Rightarrow> nat \<Rightarrow> string list \<Rightarrow> located list option" where
  "scan Top n [] = Some []"
| "scan (InComment a cl) n [] = None"
| "scan (InDeclaration a ts) n [] = None"
| "scan Top n (l # ls) =
     (let t = dropWhile is_space l
      in if t = [] then scan Top (Suc n) ls
         else if starts_with ''/*'' t then
           (case after_close (drop 2 t) of
              None \<Rightarrow> scan (InComment n [l]) (Suc n) ls
            | Some r \<Rightarrow>
                if blank r then cons_opt (n, n, Comment [l]) (scan Top (Suc n) ls) else None)
         else if starts_with ''#'' t then
           (case directive_of t of
              None \<Rightarrow> None
            | Some d \<Rightarrow> cons_opt (n, n, Directive d) (scan Top (Suc n) ls))
         else
           (let ts = lex [] t
            in if complete ts then
                 (case statement_of ts of
                    None \<Rightarrow> None
                  | Some e \<Rightarrow> cons_opt (n, n, e) (scan Top (Suc n) ls))
               else scan (InDeclaration n ts) (Suc n) ls))"
| "scan (InComment a cl) n (l # ls) =
     (case after_close l of
        None \<Rightarrow> scan (InComment a (cl @ [l])) (Suc n) ls
      | Some r \<Rightarrow>
          if blank r then cons_opt (a, n, Comment (cl @ [l])) (scan Top (Suc n) ls) else None)"
| "scan (InDeclaration a ts) n (l # ls) =
     (let t = dropWhile is_space l
      in if t = [] \<or> starts_with ''/*'' t \<or> starts_with ''#'' t then None
         else
           (let ts' = ts @ lex [] t
            in if complete ts' then
                 (case statement_of ts' of
                    None \<Rightarrow> None
                  | Some e \<Rightarrow> cons_opt (a, n, e) (scan Top (Suc n) ls))
               else scan (InDeclaration a ts') (Suc n) ls))"

definition header_elements :: "located list option" where
  "header_elements = scan Top 1 header"

definition prototypes :: "located list \<Rightarrow> prototype list" where
  "prototypes es = concat (map (\<lambda>(a, b, e). case e of Prototype p \<Rightarrow> [p] | _ \<Rightarrow> []) es)"

text \<open>The first and last line of every prototype.\<close>

definition prototype_lines :: "located list \<Rightarrow> (nat \<times> nat) list" where
  "prototype_lines es =
     concat (map (\<lambda>(a, b, e). case e of Prototype p \<Rightarrow> [(a, b)] | _ \<Rightarrow> []) es)"

text \<open>The element that line \<open>n\<close> belongs to.\<close>

definition element_at :: "nat \<Rightarrow> located list \<Rightarrow> located option" where
  "element_at n es = find (\<lambda>(a, b, e). a \<le> n \<and> n \<le> b) es"

text \<open>The prototypes with the numbers of their first and last line.\<close>

definition located_prototypes :: "located list \<Rightarrow> (nat \<times> nat \<times> prototype) list" where
  "located_prototypes es =
     concat (map (\<lambda>(a, b, e). case e of Prototype p \<Rightarrow> [(a, b, p)] | _ \<Rightarrow> []) es)"

text \<open>Line \<open>n\<close> of a file, counting from 1.\<close>

definition line_at :: "nat \<Rightarrow> string list \<Rightarrow> string option" where
  "line_at n ls = (if 0 < n \<and> n \<le> length ls then Some (ls ! (n - 1)) else None)"

text \<open>The tokens of \<open>JNIEXPORT\<close> \<^emph>\<open>type\<close> \<open>JNICALL\<close> \<^emph>\<open>name\<close>: the specifiers, the return
  type and the name of a prototype.\<close>

definition head_tokens :: "prototype \<Rightarrow> token list" where
  "head_tokens p = [Ident ''JNIEXPORT'', Ident (ret p), Ident ''JNICALL'', Ident (name p)]"

fun type_tokens :: "ctype \<Rightarrow> token list" where
  "type_tokens (Named t) = [Ident t]"
| "type_tokens (Pointer t) = [Ident t, Punct CHR ''*'']"

fun params_tokens :: "ctype list \<Rightarrow> token list" where
  "params_tokens [] = []"
| "params_tokens [t] = type_tokens t"
| "params_tokens (t # u # ts) = type_tokens t @ Punct CHR '','' # params_tokens (u # ts)"

text \<open>The tokens of \<open>(\<close>\<^emph>\<open>parameters\<close>\<open>);\<close>: the parameter list of a prototype and its
  semicolon.\<close>

definition tail_tokens :: "prototype \<Rightarrow> token list" where
  "tail_tokens p = Punct CHR ''('' # params_tokens (params p) @ [Punct CHR '')'', Punct CHR '';'']"

text \<open>
  A prototype found on lines \<open>a\<close> to \<open>b\<close> of a file is split in two when \<open>b\<close> is the
  line after \<open>a\<close>, line \<open>a\<close> holds exactly the specifiers, the return type and the
  name, and line \<open>b\<close> holds exactly the parameter list and the semicolon.
\<close>

definition split_in_two :: "string list \<Rightarrow> nat \<times> nat \<times> prototype \<Rightarrow> bool" where
  "split_in_two ls x =
     (case x of
        (a, b, p) \<Rightarrow>
          b = Suc a
          \<and> map_option (lex []) (line_at a ls) = Some (head_tokens p)
          \<and> map_option (lex []) (line_at b ls) = Some (tail_tokens p))"

datatype kind = KComment | KDirective | KLinkageOpen | KCloseBrace | KPrototype

fun kind_of :: "element \<Rightarrow> kind" where
  "kind_of (Comment ls) = KComment"
| "kind_of (Directive d) = KDirective"
| "kind_of LinkageOpen = KLinkageOpen"
| "kind_of CloseBrace = KCloseBrace"
| "kind_of (Prototype p) = KPrototype"

section \<open>Declarations: a prototype under its comment block\<close>

text \<open>The text of a comment line after its leading white space and asterisks.\<close>

definition comment_text :: "string \<Rightarrow> string" where
  "comment_text l =
     dropWhile is_space (dropWhile (\<lambda>c. c = CHR ''*'') (dropWhile is_space l))"

text \<open>The value of the field \<open>key:\<close> of a comment block, when exactly one line gives it.\<close>

definition field :: "string \<Rightarrow> string list \<Rightarrow> string option" where
  "field key ls =
     (case filter (starts_with (key @ '':'')) (map comment_text ls) of
        [v] \<Rightarrow> Some (trim (drop (length key + 1) v))
      | _ \<Rightarrow> None)"

record native_method =
  class_field :: string
  method_field :: string
  signature_field :: string
  proto :: prototype

text \<open>
  Every prototype is paired with the comment block that ends on the line just above it,
  and the block must have the fields \<open>Class\<close>, \<open>Method\<close> and \<open>Signature\<close>. A prototype
  with no such block makes the pairing fail.
\<close>

fun declarations :: "located list \<Rightarrow> native_method list option" where
  "declarations [] = Some []"
| "declarations ((a, b, Comment ls) # (c, d, Prototype p) # es) =
     (if c = Suc b then
        (case (field ''Class'' ls, field ''Method'' ls, field ''Signature'' ls) of
           (Some k, Some m, Some s) \<Rightarrow>
             cons_opt \<lparr>class_field = k, method_field = m, signature_field = s, proto = p\<rparr>
               (declarations es)
         | _ \<Rightarrow> None)
      else None)"
| "declarations ((a, b, Prototype p) # es) = None"
| "declarations (e # es) = declarations es"

definition header_declarations :: "native_method list option" where
  "header_declarations = Option.bind header_elements declarations"

text \<open>The parameters after the implicit \<open>JNIEnv *\<close> and receiver.\<close>

definition explicit_params :: "native_method \<Rightarrow> ctype list" where
  "explicit_params d = drop 2 (params (proto d))"

section \<open>JNI type descriptors and names\<close>

text \<open>
  Modelled from the spec: the correspondence between a JNI type descriptor and the C
  types of a native function (\<open>(JJI)I\<close> is \<open>(jlong, jlong, jint)\<close> returning \<open>jint\<close>,
  \<open>(J)V\<close> is one \<open>jlong\<close> returning \<open>void\<close>), completed with the JNI specification's
  table of types; \<open>jni.h\<close> and the header generator are not part of the repository.
\<close>

definition primitive_ctype :: "char \<Rightarrow> string option" where
  "primitive_ctype c =
     (if c = CHR ''Z'' then Some ''jboolean''
      else if c = CHR ''B'' then Some ''jbyte''
      else if c = CHR ''C'' then Some ''jchar''
      else if c = CHR ''S'' then Some ''jshort''
      else if c = CHR ''I'' then Some ''jint''
      else if c = CHR ''J'' then Some ''jlong''
      else if c = CHR ''F'' then Some ''jfloat''
      else if c = CHR ''D'' then Some ''jdouble''
      else None)"

definition class_ctype :: "string \<Rightarrow> string" where
  "class_ctype k =
     (if k = ''java/lang/String'' then ''jstring''
      else if k = ''java/lang/Class'' then ''jclass''
      else if k = ''java/lang/Throwable'' then ''jthrowable''
      else ''jobject'')"

definition array_ctype :: "nat \<Rightarrow> bool \<Rightarrow> string \<Rightarrow> string" where
  "array_ctype dims prim t =
     (if dims = 0 then t
      else if dims = 1 \<and> prim then t @ ''Array''
      else ''jobjectArray'')"

text \<open>A sequence of field descriptors: \<open>dims\<close> counts the \<open>[\<close> read for the current
  one, and the class name is collected between \<open>L\<close> and \<open>;\<close>.\<close>

fun field_ctypes :: "nat \<Rightarrow> string option \<Rightarrow> string \<Rightarrow> string list option" where
  "field_ctypes dims None [] = (if dims = 0 then Some [] else None)"
| "field_ctypes dims (Some k) [] = None"
| "field_ctypes dims (Some k) (c # cs) =
     (if c = CHR '';'' then
        (if k = [] then None
         else cons_opt (array_ctype dims False (class_ctype k)) (field_ctypes 0 None cs))
      else field_ctypes dims (Some (k @ [c])) cs)"
| "field_ctypes dims None (c # cs) =
     (if c = CHR ''['' then field_ctypes (Suc dims) None cs
      else if c = CHR ''L'' then field_ctypes dims (Some []) cs
      else
        (case primitive_ctype c of
           None \<Rightarrow> None
         | Some t \<Rightarrow> cons_opt (array_ctype dims True t) (field_ctypes 0 None cs)))"

text \<open>A method descriptor \<open>(\<close>\<^emph>\<open>arguments\<close>\<open>)\<close>\<^emph>\<open>result\<close>: the C types of the explicit
  arguments and the C return type.\<close>

definition descriptor_ctypes :: "string \<Rightarrow> (string list \<times> string) option" where
  "descriptor_ctypes s =
     (case s of
        [] \<Rightarrow> None
      | p # r \<Rightarrow>
          if p \<noteq> CHR ''('' then None
          else
            (let args = takeWhile (\<lambda>c. c \<noteq> CHR '')'') r;
                 res = drop 1 (dropWhile (\<lambda>c. c \<noteq> CHR '')'') r)
             in case field_ctypes 0 None args of
                  None \<Rightarrow> None
                | Some ps \<Rightarrow>
                    if res = ''V'' then Some (ps, ''void'')
                    else
                      (case field_ctypes 0 None res of
                         Some [t] \<Rightarrow> Some (ps, t)
                       | _ \<Rightarrow> None)))"

text \<open>
  Modelled from the spec: the Java class the header is generated for, and the name a
  native method of it has: \<open>Java_\<close>, the fully-qualified class name with dots replaced
  by underscores, an underscore, and the method name.
\<close>

definition java_class :: string where
  "java_class = ''org.jitsi.impl.neomedia.jmfext.media.protocol.directshow.DSCaptureDevice''"

definition dots_to_underscores :: "string \<Rightarrow> string" where
  "dots_to_underscores s = map (\<lambda>c. if c = CHR ''.'' then CHR ''_'' else c) s"

definition native_name :: "string \<Rightarrow> string \<Rightarrow> string" where
  "native_name cls m = ''Java_'' @ dots_to_underscores cls @ ''_'' @ m"

section \<open>Preprocessing and linkage\<close>

text \<open>
  Conditional inclusion over the elements of a file. \<open>M\<close> is the set of macros defined so
  far; the stack has one entry for every open \<open>#ifdef\<close>/\<open>#ifndef\<close>, true when the
  text under it is compiled. Comments are dropped, \<open>#define\<close> takes effect only in
  compiled text, and the compiled elements are returned in order with the final macro
  set. \<open>#include\<close> of another file is kept as it is: that file is not part of the
  repository. An \<open>#endif\<close> with nothing open, or a conditional left open at the end of
  the file, is an error.
\<close>

definition active :: "bool list \<Rightarrow> bool" where
  "active st = (case st of [] \<Rightarrow> True | b # _ \<Rightarrow> b)"

definition emit :: "bool \<Rightarrow> element \<Rightarrow> (string set \<times> element list) option
    \<Rightarrow> (string set \<times> element list) option" where
  "emit b e r = map_option (\<lambda>(M, out). (M, if b then e # out else out)) r"

fun preprocess :: "string set \<Rightarrow> bool list \<Rightarrow> element list
    \<Rightarrow> (string set \<times> element list) option" where
  "preprocess M st [] = (if st = [] then Some (M, []) else None)"
| "preprocess M st (Directive (Ifndef m) # es) = preprocess M ((active st \<and> m \<notin> M) # st) es"
| "preprocess M st (Directive (Ifdef m) # es) = preprocess M ((active st \<and> m \<in> M) # st) es"
| "preprocess M st (Directive Endif # es) =
     (case st of [] \<Rightarrow> None | b # st' \<Rightarrow> preprocess M st' es)"
| "preprocess M st (Directive (Define m) # es) =
     preprocess (if active st then insert m M else M) st es"
| "preprocess M st (Directive (Include f) # es) =
     emit (active st) (Directive (Include f)) (preprocess M st es)"
| "preprocess M st (Comment ls # es) = preprocess M st es"
| "preprocess M st (LinkageOpen # es) = emit (active st) LinkageOpen (preprocess M st es)"
| "preprocess M st (CloseBrace # es) = emit (active st) CloseBrace (preprocess M st es)"
| "preprocess M st (Prototype p # es) = emit (active st) (Prototype p) (preprocess M st es)"

text \<open>One inclusion of a file, given by its lines, with the macros \<open>M\<close> defined before it.\<close>

definition include_file :: "string set \<Rightarrow> string list \<Rightarrow> (string set \<times> element list) option" where
  "include_file M ls =
     (case scan Top 1 ls of
        None \<Rightarrow> None
      | Some es \<Rightarrow> preprocess M [] (map (\<lambda>(a, b, e). e) es))"

text \<open>The file included \<open>k\<close> times in a row: each inclusion starts from the macros the
  one before it left, and the compiled elements follow one another.\<close>

fun include_times :: "nat \<Rightarrow> string set \<Rightarrow> string list \<Rightarrow> (string set \<times> element list) option" where
  "include_times 0 M ls = Some (M, [])"
| "include_times (Suc k) M ls =
     (case include_file M ls of
        None \<Rightarrow> None
      | Some (M', out) \<Rightarrow>
          map_option (\<lambda>(M'', out'). (M'', out @ out')) (include_times k M' ls))"

text \<open>The prototypes among compiled elements.\<close>

definition declared :: "element list \<Rightarrow> prototype list" where
  "declared out = concat (map (\<lambda>e. case e of Prototype p \<Rightarrow> [p] | _ \<Rightarrow> []) out)"

text \<open>
  Language linkage in C++: \<open>d\<close> is the number of \<open>extern "C" {\<close> blocks open around
  the current element. Every prototype is returned with whether it stands inside such a
  block, that is, whether it has C linkage. A brace that closes nothing, or a block left
  open, is an error.
\<close>

fun linkage :: "nat \<Rightarrow> element list \<Rightarrow> (prototype \<times> bool) list option" where
  "linkage d [] = (if d = 0 then Some [] else None)"
| "linkage d (LinkageOpen # es) = linkage (Suc d) es"
| "linkage d (CloseBrace # es) = (case d of 0 \<Rightarrow> None | Suc d' \<Rightarrow> linkage d' es)"
| "linkage d (Prototype p # es) = cons_opt (p, 0 < d) (linkage d es)"
| "linkage d (Comment ls # es) = linkage d es"
| "linkage d (Directive x # es) = linkage d es"

definition guard_macro :: string where
  "guard_macro = ''_Included_org_jitsi_impl_neomedia_jmfext_media_protocol_directshow_DSCaptureDevice''"

section \<open>Return values\<close>





section \<open>Vocabulary\<close>

text \<open>The types a declaration names: its return type and the types of its parameters.\<close>

definition types_of :: "native_method \<Rightarrow> ctype list" where
  "types_of d = Named (ret (proto d)) # params (proto d)"

text \<open>The types the declarations name, once each in the order of first occurrence.\<close>

definition types_used :: "native_method list \<Rightarrow> ctype list" where
  "types_used ds = rev (remdups (rev (concat (map types_of ds))))"

text \<open>Word stems of threads, synchronisation and atomicity in C, C++, Java and the
  Windows API, in small and in capital letters.\<close>

definition threading_stems :: "(string \<times> string) list" where
  "threading_stems =
     [(''thread'', ''THREAD''), (''mutex'', ''MUTEX''), (''lock'', ''LOCK''),
      (''atomic'', ''ATOMIC''), (''volatile'', ''VOLATILE''), (''sync'', ''SYNC''),
      (''critical'', ''CRITICAL''), (''semaphore'', ''SEMAPHORE''), (''monitor'', ''MONITOR''),
      (''concurren'', ''CONCURREN''), (''reentran'', ''REENTRAN''), (''barrier'', ''BARRIER''),
      (''fence'', ''FENCE'')]"

text \<open>Whether the text starts with the stem, each letter in either case.\<close>

fun starts_with_stem :: "(char \<times> char) list \<Rightarrow> string \<Rightarrow> bool" where
  "starts_with_stem [] s = True"
| "starts_with_stem ((a, b) # ps) [] = False"
| "starts_with_stem ((a, b) # ps) (c # cs) = ((c = a \<or> c = b) \<and> starts_with_stem ps cs)"

fun contains_stem :: "(char \<times> char) list \<Rightarrow> string \<Rightarrow> bool" where
  "contains_stem p [] = (p = [])"
| "contains_stem p (c # cs) = (starts_with_stem p (c # cs) \<or> contains_stem p cs)"

text \<open>Whether a line contains one of the stems, in any mix of small and capital
  letters.\<close>

definition mentions_threading :: "string \<Rightarrow> bool" where
  "mentions_threading l = list_ex (\<lambda>(lo, up). contains_stem (zip lo up) l) threading_stems"

section \<open>What the scanner and the descriptor reader refuse\<close>

text \<open>A function with a body, a variable, a type definition, code after a comment and
  an unclosed comment are refused, as is a prototype with no comment block above it or
  with a blank line between the two.\<close>

lemma scan_refuses_body:
  "scan Top 1 [''JNIEXPORT jint JNICALL f'', ''  (JNIEnv *, jclass) { return 0; }''] = None"
  by code_simp

lemma scan_refuses_variable:
  "scan Top 1 [''static jlong device = 0;''] = None"
  by code_simp

lemma scan_refuses_typedef:
  "scan Top 1 [''typedef struct { jlong ptr; } handle;''] = None"
  by code_simp

lemma scan_refuses_code_after_comment:
  "scan Top 1 [''/* counter */ int n;''] = None"
  by code_simp

lemma scan_refuses_open_comment:
  "scan Top 1 [''/*'', '' * Method: stop''] = None"
  by code_simp

lemma scan_accepts_prototype:
  "scan Top 1 [''JNIEXPORT void JNICALL f'', ''  (JNIEnv *, jobject);'']
     = Some [(1, 2, Prototype \<lparr>ret = ''void'', name = ''f'',
                                   params = [Pointer ''JNIEnv'', Named ''jobject'']\<rparr>)]"
  by code_simp

lemma other_split_is_not_split_in_two:
  "scan Top 1 [''JNIEXPORT void JNICALL'', ''f (JNIEnv *, jobject);'']
     = Some [(1, 2, Prototype \<lparr>ret = ''void'', name = ''f'',
                                   params = [Pointer ''JNIEnv'', Named ''jobject'']\<rparr>)]
   \<and> \<not> split_in_two [''JNIEXPORT void JNICALL'', ''f (JNIEnv *, jobject);'']
          (1, 2, \<lparr>ret = ''void'', name = ''f'',
                    params = [Pointer ''JNIEnv'', Named ''jobject'']\<rparr>)
   \<and> split_in_two [''JNIEXPORT void JNICALL f'', ''  (JNIEnv *, jobject);'']
          (1, 2, \<lparr>ret = ''void'', name = ''f'',
                    params = [Pointer ''JNIEnv'', Named ''jobject'']\<rparr>)"
  by code_simp

lemma declarations_refuse_bare_prototype:
  "Option.bind (scan Top 1 [''JNIEXPORT void JNICALL f'', ''  (JNIEnv *, jobject);''])
     declarations = None"
  by code_simp

lemma declarations_refuse_detached_comment:
  "Option.bind
     (scan Top 1
        [''/*'', '' * Class: k'', '' * Method: f'', '' * Signature: ()V'', '' */'', [],
         ''JNIEXPORT void JNICALL f'', ''  (JNIEnv *, jobject);''])
     declarations = None"
  by code_simp

text \<open>Unbalanced conditionals and braces are errors.\<close>

lemma preprocess_refuses_stray_endif:
  "preprocess M [] [Directive Endif] = None"
  by simp

lemma preprocess_refuses_open_conditional:
  "preprocess M [] [Directive (Ifdef m)] = None"
  by simp

lemma linkage_refuses_stray_brace:
  "linkage 0 [CloseBrace] = None"
  by simp

text \<open>The descriptor reader on descriptors that are not in the header, and on malformed
  ones.\<close>

lemma descriptor_ctypes_arrays_and_classes:
  "descriptor_ctypes ''([[I[JLjava/lang/String;Z[Ljava/lang/Object;)[B''
     = Some ([''jobjectArray'', ''jlongArray'', ''jstring'', ''jboolean'', ''jobjectArray''],
             ''jbyteArray'')"
  by code_simp

lemma descriptor_ctypes_refuses_malformed:
  "descriptor_ctypes ''(J)'' = None"
  "descriptor_ctypes ''(J'' = None"
  "descriptor_ctypes ''(JLfoo)V'' = None"
  "descriptor_ctypes ''(V)V'' = None"
  "descriptor_ctypes ''J'' = None"
  by code_simp+

section \<open>The header, scanned\<close>

text \<open>The elements of the header with their lines, and its declarations.\<close>

lemma header_scan:
  \<open>scan Top 1 header = Some
    [(1, 1, Comment [''/* DO NOT EDIT THIS FILE - it is machine generated */'']),
     (2, 2, Directive (Include ''jni.h'')),
     (3, 3, Comment [''/* Header for class org_jitsi_impl_neomedia_jmfext_media_protocol_directshow_DSCaptureDevice */'']),
     (5, 5, Directive (Ifndef ''_Included_org_jitsi_impl_neomedia_jmfext_media_protocol_directshow_DSCaptureDevice'')),
     (6, 6, Directive (Define ''_Included_org_jitsi_impl_neomedia_jmfext_media_protocol_directshow_DSCaptureDevice'')),
     (7, 7, Directive (Ifdef ''__cplusplus'')),
     (8, 8, LinkageOpen),
     (9, 9, Directive Endif),
     (10, 14,
      Comment
       [''/*'',
        '' * Class:     org_jitsi_impl_neomedia_jmfext_media_protocol_directshow_DSCaptureDevice'',
        '' * Method:    getBytes'',
        '' * Signature: (JJI)I'',
        '' */'']),
     (15, 16,
      Prototype
       \<lparr>ret = ''jint'',
          name = ''Java_org_jitsi_impl_neomedia_jmfext_media_protocol_directshow_DSCaptureDevice_getBytes'',
          params = [Pointer ''JNIEnv'', Named ''jclass'', Named ''jlong'', Named ''jlong'', Named ''jint'']\<rparr>),
     (18, 22,
      Comment
       [''/*'',
        '' * Class:     org_jitsi_impl_neomedia_jmfext_media_protocol_directshow_DSCaptureDevice'',
        '' * Method:    connect'',
        '' * Signature: (J)V'',
        '' */'']),
     (23, 24,
      Prototype
       \<lparr>ret = ''void'',
          name = ''Java_org_jitsi_impl_neomedia_jmfext_media_protocol_directshow_DSCaptureDevice_connect'',
          params = [Pointer ''JNIEnv'', Named ''jobject'', Named ''jlong'']\<rparr>),
     (26, 30,
      Comment
       [''/*'',
        '' * Class:     org_jitsi_impl_neomedia_jmfext_media_protocol_directshow_DSCaptureDevice'',
        '' * Method:    disconnect'',
        '' * Signature: (J)V'',
        '' */'']),
     (31, 32,
      Prototype
       \<lparr>ret = ''void'',
          name = ''Java_org_jitsi_impl_neomedia_jmfext_media_protocol_directshow_DSCaptureDevice_disconnect'',
          params = [Pointer ''JNIEnv'', Named ''jobject'', Named ''jlong'']\<rparr>),
     (34, 38,
      Comment
       [''/*'',
        '' * Class:     org_jitsi_impl_neomedia_jmfext_media_protocol_directshow_DSCaptureDevice'',
        '' * Method:    getFormat'',
        '' * Signature: (J)Lorg/jitsi/impl/neomedia/jmfext/media/protocol/directshow/DSFormat;'',
        '' */'']),
     (39, 40,
      Prototype
       \<lparr>ret = ''jobject'',
          name = ''Java_org_jitsi_impl_neomedia_jmfext_media_protocol_directshow_DSCaptureDevice_getFormat'',
          params = [Pointer ''JNIEnv'', Named ''jobject'', Named ''jlong'']\<rparr>),
     (42, 46,
      Comment
       [''/*'',
        '' * Class:     org_jitsi_impl_neomedia_jmfext_media_protocol_directshow_DSCaptureDevice'',
        '' * Method:    getName'',
        '' * Signature: (J)Ljava/lang/String;'',
        '' */'']),
     (47, 48,
      Prototype
       \<lparr>ret = ''jstring'',
          name = ''Java_org_jitsi_impl_neomedia_jmfext_media_protocol_directshow_DSCaptureDevice_getName'',
          params = [Pointer ''JNIEnv'', Named ''jobject'', Named ''jlong'']\<rparr>),
     (50, 54,
      Comment
       [''/*'',
        '' * Class:     org_jitsi_impl_neomedia_jmfext_media_protocol_directshow_DSCaptureDevice'',
        '' * Method:    getSupportedFormats'',
        '' * Signature: (J)[Lorg/jitsi/impl/neomedia/jmfext/media/protocol/directshow/DSFormat;'',
        '' */'']),
     (55, 56,
      Prototype
       \<lparr>ret = ''jobjectArray'',
          name = ''Java_org_jitsi_impl_neomedia_jmfext_media_protocol_directshow_DSCaptureDevice_getSupportedFormats'',
          params = [Pointer ''JNIEnv'', Named ''jobject'', Named ''jlong'']\<rparr>),
     (58, 62,
      Comment
       [''/*'',
        '' * Class:     org_jitsi_impl_neomedia_jmfext_media_protocol_directshow_DSCaptureDevice'',
        '' * Method:    setDelegate'',
        '' * Signature: (JLorg/jitsi/impl/neomedia/jmfext/media/protocol/directshow/DSCaptureDevice/GrabberDelegate;)V'',
        '' */'']),
     (63, 64,
      Prototype
       \<lparr>ret = ''void'',
          name = ''Java_org_jitsi_impl_neomedia_jmfext_media_protocol_directshow_DSCaptureDevice_setDelegate'',
          params = [Pointer ''JNIEnv'', Named ''jobject'', Named ''jlong'', Named ''jobject'']\<rparr>),
     (66, 70,
      Comment
       [''/*'',
        '' * Class:     org_jitsi_impl_neomedia_jmfext_media_protocol_directshow_DSCaptureDevice'',
        '' * Method:    setFormat'',
        '' * Signature: (JLorg/jitsi/impl/neomedia/jmfext/media/protocol/directshow/DSFormat;)I'',
        '' */'']),
     (71, 72,
      Prototype
       \<lparr>ret = ''jint'',
          name = ''Java_org_jitsi_impl_neomedia_jmfext_media_protocol_directshow_DSCaptureDevice_setFormat'',
          params = [Pointer ''JNIEnv'', Named ''jobject'', Named ''jlong'', Named ''jobject'']\<rparr>),
     (74, 78,
      Comment
       [''/*'',
        '' * Class:     org_jitsi_impl_neomedia_jmfext_media_protocol_directshow_DSCaptureDevice'',
        '' * Method:    start'',
        '' * Signature: (J)I'',
        '' */'']),
     (79, 80,
      Prototype
       \<lparr>ret = ''jint'',
          name = ''Java_org_jitsi_impl_neomedia_jmfext_media_protocol_directshow_DSCaptureDevice_start'',
          params = [Pointer ''JNIEnv'', Named ''jobject'', Named ''jlong'']\<rparr>),
     (82, 86,
      Comment
       [''/*'',
        '' * Class:     org_jitsi_impl_neomedia_jmfext_media_protocol_directshow_DSCaptureDevice'',
        '' * Method:    stop'',
        '' * Signature: (J)I'',
        '' */'']),
     (87, 88,
      Prototype
       \<lparr>ret = ''jint'',
          name = ''Java_org_jitsi_impl_neomedia_jmfext_media_protocol_directshow_DSCaptureDevice_stop'',
          params = [Pointer ''JNIEnv'', Named ''jobject'', Named ''jlong'']\<rparr>),
     (90, 90, Directive (Ifdef ''__cplusplus'')),
     (91, 91, CloseBrace),
     (92, 92, Directive Endif),
     (93, 93, Directive Endif)]\<close>
  by code_simp

lemma header_declarations_eq:
  \<open>header_declarations = Some
    [\<lparr>class_field = ''org_jitsi_impl_neomedia_jmfext_media_protocol_directshow_DSCaptureDevice'',
       method_field = ''getBytes'',
       signature_field = ''(JJI)I'',
       proto =
        \<lparr>ret = ''jint'',
          name = ''Java_org_jitsi_impl_neomedia_jmfext_media_protocol_directshow_DSCaptureDevice_getBytes'',
          params = [Pointer ''JNIEnv'', Named ''jclass'', Named ''jlong'', Named ''jlong'', Named ''jint'']\<rparr>\<rparr>,
     \<lparr>class_field = ''org_jitsi_impl_neomedia_jmfext_media_protocol_directshow_DSCaptureDevice'',
       method_field = ''connect'',
       signature_field = ''(J)V'',
       proto =
        \<lparr>ret = ''void'',
          name = ''Java_org_jitsi_impl_neomedia_jmfext_media_protocol_directshow_DSCaptureDevice_connect'',
          params = [Pointer ''JNIEnv'', Named ''jobject'', Named ''jlong'']\<rparr>\<rparr>,
     \<lparr>class_field = ''org_jitsi_impl_neomedia_jmfext_media_protocol_directshow_DSCaptureDevice'',
       method_field = ''disconnect'',
       signature_field = ''(J)V'',
       proto =
        \<lparr>ret = ''void'',
          name = ''Java_org_jitsi_impl_neomedia_jmfext_media_protocol_directshow_DSCaptureDevice_disconnect'',
          params = [Pointer ''JNIEnv'', Named ''jobject'', Named ''jlong'']\<rparr>\<rparr>,
     \<lparr>class_field = ''org_jitsi_impl_neomedia_jmfext_media_protocol_directshow_DSCaptureDevice'',
       method_field = ''getFormat'',
       signature_field = ''(J)Lorg/jitsi/impl/neomedia/jmfext/media/protocol/directshow/DSFormat;'',
       proto =
        \<lparr>ret = ''jobject'',
          name = ''Java_org_jitsi_impl_neomedia_jmfext_media_protocol_directshow_DSCaptureDevice_getFormat'',
          params = [Pointer ''JNIEnv'', Named ''jobject'', Named ''jlong'']\<rparr>\<rparr>,
     \<lparr>class_field = ''org_jitsi_impl_neomedia_jmfext_media_protocol_directshow_DSCaptureDevice'',
       method_field = ''getName'',
       signature_field = ''(J)Ljava/lang/String;'',
       proto =
        \<lparr>ret = ''jstring'',
          name = ''Java_org_jitsi_impl_neomedia_jmfext_media_protocol_directshow_DSCaptureDevice_getName'',
          params = [Pointer ''JNIEnv'', Named ''jobject'', Named ''jlong'']\<rparr>\<rparr>,
     \<lparr>class_field = ''org_jitsi_impl_neomedia_jmfext_media_protocol_directshow_DSCaptureDevice'',
       method_field = ''getSupportedFormats'',
       signature_field = ''(J)[Lorg/jitsi/impl/neomedia/jmfext/media/protocol/directshow/DSFormat;'',
       proto =
        \<lparr>ret = ''jobjectArray'',
          name = ''Java_org_jitsi_impl_neomedia_jmfext_media_protocol_directshow_DSCaptureDevice_getSupportedFormats'',
          params = [Pointer ''JNIEnv'', Named ''jobject'', Named ''jlong'']\<rparr>\<rparr>,
     \<lparr>class_field = ''org_jitsi_impl_neomedia_jmfext_media_protocol_directshow_DSCaptureDevice'',
       method_field = ''setDelegate'',
       signature_field = ''(JLorg/jitsi/impl/neomedia/jmfext/media/protocol/directshow/DSCaptureDevice/GrabberDelegate;)V'',
       proto =
        \<lparr>ret = ''void'',
          name = ''Java_org_jitsi_impl_neomedia_jmfext_media_protocol_directshow_DSCaptureDevice_setDelegate'',
          params = [Pointer ''JNIEnv'', Named ''jobject'', Named ''jlong'', Named ''jobject'']\<rparr>\<rparr>,
     \<lparr>class_field = ''org_jitsi_impl_neomedia_jmfext_media_protocol_directshow_DSCaptureDevice'',
       method_field = ''setFormat'',
       signature_field = ''(JLorg/jitsi/impl/neomedia/jmfext/media/protocol/directshow/DSFormat;)I'',
       proto =
        \<lparr>ret = ''jint'',
          name = ''Java_org_jitsi_impl_neomedia_jmfext_media_protocol_directshow_DSCaptureDevice_setFormat'',
          params = [Pointer ''JNIEnv'', Named ''jobject'', Named ''jlong'', Named ''jobject'']\<rparr>\<rparr>,
     \<lparr>class_field = ''org_jitsi_impl_neomedia_jmfext_media_protocol_directshow_DSCaptureDevice'',
       method_field = ''start'',
       signature_field = ''(J)I'',
       proto =
        \<lparr>ret = ''jint'',
          name = ''Java_org_jitsi_impl_neomedia_jmfext_media_protocol_directshow_DSCaptureDevice_start'',
          params = [Pointer ''JNIEnv'', Named ''jobject'', Named ''jlong'']\<rparr>\<rparr>,
     \<lparr>class_field = ''org_jitsi_impl_neomedia_jmfext_media_protocol_directshow_DSCaptureDevice'',
       method_field = ''stop'',
       signature_field = ''(J)I'',
       proto =
        \<lparr>ret = ''jint'',
          name = ''Java_org_jitsi_impl_neomedia_jmfext_media_protocol_directshow_DSCaptureDevice_stop'',
          params = [Pointer ''JNIEnv'', Named ''jobject'', Named ''jlong'']\<rparr>\<rparr>]\<close>
  by code_simp

lemma found_and_holds:
  "(case x of None \<Rightarrow> False | Some y \<Rightarrow> P y) \<Longrightarrow> \<exists>y. x = Some y \<and> P y"
  by (cases x) simp_all

section \<open>The declared interface\<close>

text \<open>
  C1. The header declares native entry points for exactly ten methods of
  \<open>DSCaptureDevice\<close>: \<open>getBytes\<close>, \<open>connect\<close>, \<open>disconnect\<close>, \<open>getFormat\<close>,
  \<open>getName\<close>, \<open>getSupportedFormats\<close>, \<open>setDelegate\<close>, \<open>setFormat\<close>, \<open>start\<close> and
  \<open>stop\<close>, and no others: these are the methods of its ten declarations, no two the
  same, every prototype of the file is one of these declarations, and the operations of
  the four groups (connect and disconnect; format negotiation; frame delivery; start and
  stop) are all among them.
\<close>

theorem C1_ten_native_methods:
  "\<exists>ds. header_declarations = Some ds
     \<and> map method_field ds =
         [''getBytes'', ''connect'', ''disconnect'', ''getFormat'', ''getName'',
          ''getSupportedFormats'', ''setDelegate'', ''setFormat'', ''start'', ''stop'']
     \<and> length ds = 10
     \<and> distinct (map method_field ds)
     \<and> distinct (map (\<lambda>d. name (proto d)) ds)
     \<and> Some (map proto ds) = map_option prototypes header_elements
     \<and> list_all (\<lambda>m. m \<in> set (map method_field ds))
          ([''connect'', ''disconnect'']
            @ [''getFormat'', ''setFormat'', ''getSupportedFormats'']
            @ [''getBytes'', ''setDelegate'']
            @ [''start'', ''stop''])"
  by (rule found_and_holds,
      unfold header_declarations_eq header_elements_def header_scan option.case) code_simp

text \<open>
  C2, as stated, fails: not every explicit argument and non-void return type is
  \<open>jlong\<close>. The header's declarations are found, and it is false that they all have
  only \<open>jlong\<close> explicit parameters and a \<open>void\<close> or \<open>jlong\<close> return type
  (\<open>getBytes\<close> already takes a \<open>jint\<close> and returns \<open>jint\<close>).
\<close>

theorem C2_not_only_jlong:
  "map_option
     (list_all (\<lambda>d. list_all (\<lambda>t. t = Named ''jlong'') (explicit_params d)
                   \<and> (ret (proto d) = ''void'' \<or> ret (proto d) = ''jlong'')))
     header_declarations = Some False"
  unfolding header_declarations_eq by code_simp

text \<open>
  C2, amended. Beyond the implicit \<open>JNIEnv *\<close> and receiver, every declared function
  takes an opaque \<open>jlong\<close> handle as its first explicit argument, every other explicit
  argument is a \<open>jlong\<close>, \<open>jint\<close> or \<open>jobject\<close>, and every return type is \<open>void\<close>,
  \<open>jint\<close>, \<open>jobject\<close>, \<open>jstring\<close> or \<open>jobjectArray\<close>: JNI primitive and reference
  types only, no other data structure. The table gives the explicit parameters and the
  return type of each function.
\<close>

theorem C2_handles_and_jni_types:
  "\<exists>ds. header_declarations = Some ds
     \<and> map (\<lambda>d. (method_field d, explicit_params d, ret (proto d))) ds =
         [(''getBytes'', [Named ''jlong'', Named ''jlong'', Named ''jint''], ''jint''),
          (''connect'', [Named ''jlong''], ''void''),
          (''disconnect'', [Named ''jlong''], ''void''),
          (''getFormat'', [Named ''jlong''], ''jobject''),
          (''getName'', [Named ''jlong''], ''jstring''),
          (''getSupportedFormats'', [Named ''jlong''], ''jobjectArray''),
          (''setDelegate'', [Named ''jlong'', Named ''jobject''], ''void''),
          (''setFormat'', [Named ''jlong'', Named ''jobject''], ''jint''),
          (''start'', [Named ''jlong''], ''jint''),
          (''stop'', [Named ''jlong''], ''jint'')]
     \<and> list_all
          (\<lambda>d. take 1 (explicit_params d) = [Named ''jlong'']
             \<and> list_all (\<lambda>t. t \<in> set [Named ''jlong'', Named ''jint'', Named ''jobject''])
                   (explicit_params d)
             \<and> ret (proto d) \<in> set [''void'', ''jint'', ''jobject'', ''jstring'', ''jobjectArray''])
          ds"
  by (rule found_and_holds, unfold header_declarations_eq option.case) code_simp

text \<open>
  C3. For every declared function, the prototype agrees with the JNI type descriptor in
  the \<open>Signature\<close> field of the comment block that ends on the line just above it: the
  descriptor is well formed, the prototype's parameters are \<open>JNIEnv *\<close>, the receiver
  (\<open>jobject\<close> or \<open>jclass\<close>) and then the C types of the descriptor's arguments, in
  order, and the C type of its result is the prototype's return type. The first three descriptors are \<open>(JJI)I\<close>, \<open>(J)V\<close> and
  \<open>(J)V\<close>; \<open>(JJI)I\<close> stands for \<open>(jlong, jlong, jint)\<close> returning \<open>jint\<close>, \<open>(J)V\<close>
  for one \<open>jlong\<close> returning \<open>void\<close>, and \<open>(J)I\<close> for one \<open>jlong\<close> returning \<open>jint\<close>.
\<close>

theorem C3_prototype_agrees_with_descriptor:
  "\<exists>ds. header_declarations = Some ds
     \<and> list_all
          (\<lambda>d. map_option (\<lambda>(ps, r). (map Named ps, r)) (descriptor_ctypes (signature_field d))
                 = Some (explicit_params d, ret (proto d))
             \<and> take 2 (params (proto d))
                 \<in> set [[Pointer ''JNIEnv'', Named ''jobject''],
                        [Pointer ''JNIEnv'', Named ''jclass'']])
          ds
     \<and> map signature_field (take 3 ds) = [''(JJI)I'', ''(J)V'', ''(J)V'']
     \<and> descriptor_ctypes ''(JJI)I'' = Some ([''jlong'', ''jlong'', ''jint''], ''jint'')
     \<and> descriptor_ctypes ''(J)V'' = Some ([''jlong''], ''void'')
     \<and> descriptor_ctypes ''(J)I'' = Some ([''jlong''], ''jint'')"
  by (rule found_and_holds, unfold header_declarations_eq option.case) code_simp

text \<open>
  C4. Every declared function has the name Java links a native method of the class
  \<open>org.jitsi.impl.neomedia.jmfext.media.protocol.directshow.DSCaptureDevice\<close> to:
  \<open>Java_\<close>, the class name with dots replaced by underscores, an underscore, and the
  method name of its comment block (whose \<open>Class\<close> field is that class name with
  underscores); and its first parameter is \<open>JNIEnv *\<close>.
\<close>

theorem C4_linkage_names:
  "\<exists>ds. header_declarations = Some ds
     \<and> list_all
          (\<lambda>d. name (proto d) = native_name java_class (method_field d)
             \<and> class_field d = dots_to_underscores java_class
             \<and> take 1 (params (proto d)) = [Pointer ''JNIEnv''])
          ds"
  by (rule found_and_holds, unfold header_declarations_eq option.case) code_simp

text \<open>
  C5, as stated, fails in one word: the prototypes are not one-line. Line 16 of the
  header belongs to the prototype of \<open>getBytes\<close>, which began on line 15.
\<close>

theorem C5_prototype_on_two_lines:
  "Option.bind header_elements (element_at 16) =
     Some (15, 16,
       Prototype
         \<lparr>ret = ''jint'',
            name = ''Java_org_jitsi_impl_neomedia_jmfext_media_protocol_directshow_DSCaptureDevice_getBytes'',
            params = [Pointer ''JNIEnv'', Named ''jclass'', Named ''jlong'', Named ''jlong'',
                      Named ''jint'']\<rparr>)"
  unfolding header_elements_def header_scan by code_simp

text \<open>
  C5, amended. The file contains declarations only and no logic: it scans, from the
  first line to the last, as comments, preprocessor directives, the opening and the
  closing brace of one \<open>extern "C"\<close> wrapper and ten function prototypes, in the order
  given; so no function has a body and there is no variable, statement or control flow.
  Every prototype is written on two consecutive lines: the specifiers \<open>JNIEXPORT\<close> and
  \<open>JNICALL\<close>, the return type and the name on the first, and nothing else there; the
  parameter list and the semicolon on the second, and nothing else there.
\<close>

theorem C5_declarations_only:
  "\<exists>es. header_elements = Some es
     \<and> map (\<lambda>(a, b, e). kind_of e) es =
         [KComment, KDirective, KComment, KDirective, KDirective, KDirective,
          KLinkageOpen, KDirective,
          KComment, KPrototype, KComment, KPrototype, KComment, KPrototype,
          KComment, KPrototype, KComment, KPrototype, KComment, KPrototype,
          KComment, KPrototype, KComment, KPrototype, KComment, KPrototype,
          KComment, KPrototype,
          KDirective, KCloseBrace, KDirective, KDirective]
     \<and> length (prototypes es) = 10
     \<and> list_all (\<lambda>(a, b). b = Suc a) (prototype_lines es)
     \<and> map (\<lambda>(a, b, p). (a, b)) (located_prototypes es) = prototype_lines es
     \<and> map (\<lambda>(a, b, p). p) (located_prototypes es) = prototypes es
     \<and> list_all (split_in_two header) (located_prototypes es)"
  by (rule found_and_holds, unfold header_elements_def header_scan option.case) code_simp

section \<open>Linkage and repeated inclusion\<close>

lemma include_guarded:
  assumes "guard_macro \<in> M"
  shows "include_file M header = Some (M, [Directive (Include ''jni.h'')])"
  using assms unfolding include_file_def header_scan guard_macro_def
  by (simp add: active_def emit_def)

lemma include_first:
  "\<exists>out. include_file M header = Some (insert guard_macro M, out)"
proof (cases "guard_macro \<in> M")
  case True
  then show ?thesis by (simp add: include_guarded insert_absorb)
next
  case False
  then show ?thesis
    unfolding include_file_def header_scan guard_macro_def
    by (cases "''__cplusplus'' \<in> M") (simp_all add: active_def emit_def)
qed

lemma include_again:
  "guard_macro \<in> M \<Longrightarrow>
     include_times k M header = Some (M, replicate k (Directive (Include ''jni.h'')))"
  by (induction k) (simp_all add: include_guarded)

lemma declared_append_includes:
  "declared (out @ replicate k (Directive (Include f))) = declared out"
  by (induction k)
     (simp_all add: declared_def replicate_append_same [symmetric] del: replicate.simps)

text \<open>
  C6. When the header is compiled as C++, that is with \<open>__cplusplus\<close> defined, whatever
  else is defined, it preprocesses without error, its braces balance, and every
  prototype it declares stands inside the \<open>extern "C"\<close> block and so has C linkage.
  Unless the include guard was already defined, in which case nothing is declared, the
  prototypes declared are all the prototypes of the file.
\<close>

theorem C6_extern_C_linkage:
  assumes "''__cplusplus'' \<in> M"
  shows "\<exists>M' out ds.
           include_file M header = Some (M', out)
         \<and> linkage 0 out = Some ds
         \<and> list_all snd ds
         \<and> Some (map fst ds)
             = (if guard_macro \<in> M then Some [] else map_option prototypes header_elements)"
proof (cases "guard_macro \<in> M")
  case True
  then show ?thesis by (simp add: include_guarded)
next
  case False
  then show ?thesis
    using assms unfolding include_file_def header_elements_def header_scan guard_macro_def
    by (simp add: active_def emit_def cons_opt_def prototypes_def)
qed

theorem C6_extern_C_linkage_witness:
  "''__cplusplus'' \<in> {''__cplusplus''}
   \<and> (\<exists>M' out ds.
           include_file {''__cplusplus''} header = Some (M', out)
         \<and> linkage 0 out = Some ds
         \<and> list_all snd ds
         \<and> Some (map fst ds) = map_option prototypes header_elements)"
  using C6_extern_C_linkage [of "{''__cplusplus''}"] by (simp add: guard_macro_def)

text \<open>
  C7. The header specifies no concurrency contract: no line of it, comments included,
  contains a word of threads, locks, synchronisation or atomicity in any letter case, and
  the only types its declarations name are \<open>JNIEnv *\<close>, \<open>void\<close> and six JNI value
  and reference types. So no synchronisation primitive, thread type, atomic or threading
  annotation appears in the file.
\<close>

theorem C7_no_threading_vocabulary:
  "filter mentions_threading header = []
   \<and> (\<exists>ds. header_declarations = Some ds
          \<and> types_used ds =
              [Named ''jint'', Pointer ''JNIEnv'', Named ''jclass'', Named ''jlong'',
               Named ''void'', Named ''jobject'', Named ''jstring'', Named ''jobjectArray''])"
proof
  show "filter mentions_threading header = []"
    by code_simp
  show "\<exists>ds. header_declarations = Some ds
          \<and> types_used ds =
              [Named ''jint'', Pointer ''JNIEnv'', Named ''jclass'', Named ''jlong'',
               Named ''void'', Named ''jobject'', Named ''jstring'', Named ''jobjectArray'']"
    by (rule found_and_holds, unfold header_declarations_eq option.case) code_simp
qed

text \<open>
  C8, as stated, fails in its premise: not the entire content is wrapped in the include
  guard. With the guard macro already defined, including the header still compiles its
  \<open>#include <jni.h>\<close>, which stands on line 2, before the guard's \<open>#ifndef\<close> on line 5.
\<close>

theorem C8_include_outside_guard:
  "include_file {guard_macro} header = Some ({guard_macro}, [Directive (Include ''jni.h'')])"
  by (simp add: include_guarded)

text \<open>
  C8, amended. Inclusion of the header is idempotent for its declarations: whatever
  macros are defined beforehand, including the file any number of times greater than
  zero, one time after the other, succeeds, ends with the same macros defined as
  including it once, the guard among them, and declares exactly the prototypes that
  including it once declares, in the same order and none twice. (Only the
  \<open>#include <jni.h>\<close> before the guard is compiled on every inclusion.)
\<close>

theorem C8_inclusion_idempotent:
  assumes "0 < n"
  shows "\<exists>M' out out_n.
           include_file M header = Some (M', out)
         \<and> include_times n M header = Some (M', out_n)
         \<and> declared out_n = declared out
         \<and> guard_macro \<in> M'"
proof -
  obtain out where out: "include_file M header = Some (insert guard_macro M, out)"
    using include_first by blast
  obtain k where n: "n = Suc k"
    using assms by (cases n) simp_all
  have "include_times n M header
          = Some (insert guard_macro M, out @ replicate k (Directive (Include ''jni.h'')))"
    by (simp add: n out include_again)
  then show ?thesis
    using out declared_append_includes by fastforce
qed

theorem C8_inclusion_idempotent_witness:
  "(0::nat) < 3
   \<and> (\<exists>M' out out_n.
           include_file {} header = Some (M', out)
         \<and> include_times 3 {} header = Some (M', out_n)
         \<and> declared out_n = declared out
         \<and> guard_macro \<in> M')"
  using C8_inclusion_idempotent [of 3 "{}"] by simp

section \<open>Receivers and return types\<close>

text \<open>
  C9. \<open>getBytes\<close> is the only static native method: its second parameter is \<open>jclass\<close>,
  and the second parameter of each of the other nine functions is \<open>jobject\<close>, the
  receiver.
\<close>

theorem C9_only_getBytes_static:
  "\<exists>ds. header_declarations = Some ds
     \<and> map (\<lambda>d. (method_field d, take 1 (drop 1 (params (proto d))))) ds =
         [(''getBytes'', [Named ''jclass'']),
          (''connect'', [Named ''jobject'']),
          (''disconnect'', [Named ''jobject'']),
          (''getFormat'', [Named ''jobject'']),
          (''getName'', [Named ''jobject'']),
          (''getSupportedFormats'', [Named ''jobject'']),
          (''setDelegate'', [Named ''jobject'']),
          (''setFormat'', [Named ''jobject'']),
          (''start'', [Named ''jobject'']),
          (''stop'', [Named ''jobject''])]
     \<and> map method_field (filter (\<lambda>d. take 1 (drop 1 (params (proto d))) = [Named ''jclass'']) ds)
         = [''getBytes'']"
  by (rule found_and_holds, unfold header_declarations_eq option.case) code_simp



end
